theory Spec2Isabelle
  imports Complex_Main "HOL-Library.Sublist"
begin

section \<open>Storage layer (database.py)\<close>

text \<open>
  The tables are the ones \<^verbatim>\<open>init_db\<close> creates. A Python \<^verbatim>\<open>str\<close> is the list of its
  code points; \<^verbatim>\<open>Decimal\<close> and \<^verbatim>\<open>float\<close> amounts are exact rationals
  (\<^verbatim>\<open>Decimal(str(x))\<close> is the identity on them), so neither binary rounding nor the
  scale of a \<^verbatim>\<open>DECIMAL(10,3)\<close> column is part of the model. The columns
  \<^verbatim>\<open>created_at\<close>, \<^verbatim>\<open>updated_at\<close> and \<^verbatim>\<open>user_balances.username\<close>, which no
  modelled statement reads, are left out; a table with an \<^verbatim>\<open>ORDER BY created_at\<close> reader
  is kept as a list in creation order. Foreign keys are not checked.
\<close>

type_synonym pystr = "nat list"

text \<open>
  The exceptions the modelled code raises or catches. \<open>ValueError_balance\<close> is the
  insufficient-balance \<^verbatim>\<open>ValueError\<close> of the queue and of \<^verbatim>\<open>process_purchase\<close> (current balance,
  required amount), \<open>ValueError_debit\<close> the one of \<^verbatim>\<open>set_balance\<close> (current balance, absolute
  amount). \<open>Exception\<close> carries its message. \<open>error_text\<close> is what the queue stores in
  \<^verbatim>\<open>error_message\<close>: a message, or \<^verbatim>\<open>str(e)\<close> of an exception, kept as the exception.
\<close>

datatype exn =
    ValueError_balance rat rat
  | ValueError_debit rat rat
  | KeyError nat
  | IndexError
  | TypeError
  | IntegrityError
  | InvalidOperation
  | TelegramError pystr "nat option"
  | Exception pystr

datatype error_text = Text pystr | Str exn

text \<open>
  \<^verbatim>\<open>purchase_orders.status\<close> is an enumeration of three words: success (\<open>Paid\<close>), failure
  (\<open>Unpaid\<close>) and duplicate (\<open>Repeated\<close>). \<^verbatim>\<open>usdtpay.status\<close> is a number: 0 open,
  1 matched, 2 canceled. \<^verbatim>\<open>expires_at\<close> is \<open>None\<close> when the column does not hold a time.
\<close>

datatype order_status = Paid | Unpaid | Repeated

datatype queue_status = Pending | Processing | Completed | Failed

record deposit_order =
  out_trade_no :: pystr
  dep_telegram_id :: int
  expires_at :: "int option"
  dep_status :: nat
  dep_amount :: rat

record okusdt_row =
  ok_trade_no :: pystr
  ok_telegram_id :: int
  ok_amount :: rat

record purchase_order =
  order_id :: pystr
  po_telegram_id :: int
  po_username :: pystr
  po_duration :: nat
  po_amount :: rat
  po_status :: order_status

record completed_order =
  req_id :: pystr
  co_telegram_id :: int
  co_username :: pystr
  co_duration :: nat
  co_amount :: rat
  co_tx_hash :: pystr

record queue_task =
  task_id :: nat
  qt_telegram_id :: int
  qt_username :: pystr
  qt_duration :: nat
  qt_status :: queue_status
  retry_count :: nat
  error_message :: "error_text option"

record database =
  user_balances :: "int \<rightharpoonup> rat"
  usdtpay :: "deposit_order list"
  okusdt :: "okusdt_row list"
  purchase_orders :: "purchase_order list"
  completed_orders :: "completed_order list"
  premium_queue :: "queue_task list"

subsection \<open>Connections and transactions\<close>

text \<open>
  The pool is created with \<^verbatim>\<open>autocommit=False\<close>: a statement executed on a connection
  stays pending until that connection commits. A connection is the list of its pending
  writes; what it reads is the committed database with those writes applied.
\<close>

datatype db_write =
    Upsert_balance int rat
  | Add_balance int rat
  | Insert_purchase_order purchase_order
  | Insert_completed_order completed_order
  | Set_deposit_status pystr nat
  | Insert_okusdt okusdt_row
  | Delete_deposit pystr
  | Insert_deposit deposit_order
  | Insert_queue_task queue_task
  | Set_task_status nat queue_status
  | Set_task_failed nat queue_status "error_text option"

fun apply_write :: "db_write \<Rightarrow> database \<Rightarrow> database" where
  "apply_write (Upsert_balance uid b) d = d\<lparr>user_balances := (user_balances d)(uid \<mapsto> b)\<rparr>"
| "apply_write (Add_balance uid a) d =
     (case user_balances d uid of
        None \<Rightarrow> d
      | Some b \<Rightarrow> d\<lparr>user_balances := (user_balances d)(uid \<mapsto> b + a)\<rparr>)"
| "apply_write (Insert_purchase_order r) d = d\<lparr>purchase_orders := purchase_orders d @ [r]\<rparr>"
| "apply_write (Insert_completed_order r) d = d\<lparr>completed_orders := completed_orders d @ [r]\<rparr>"
| "apply_write (Set_deposit_status k s) d =
     d\<lparr>usdtpay := map (\<lambda>r. if out_trade_no r = k then r\<lparr>dep_status := s\<rparr> else r) (usdtpay d)\<rparr>"
| "apply_write (Insert_okusdt r) d = d\<lparr>okusdt := okusdt d @ [r]\<rparr>"
| "apply_write (Delete_deposit k) d =
     d\<lparr>usdtpay := filter (\<lambda>r. out_trade_no r \<noteq> k) (usdtpay d)\<rparr>"
| "apply_write (Insert_deposit r) d = d\<lparr>usdtpay := usdtpay d @ [r]\<rparr>"
| "apply_write (Insert_queue_task t) d = d\<lparr>premium_queue := premium_queue d @ [t]\<rparr>"
| "apply_write (Set_task_status i s) d =
     d\<lparr>premium_queue :=
        map (\<lambda>t. if task_id t = i then t\<lparr>qt_status := s\<rparr> else t) (premium_queue d)\<rparr>"
| "apply_write (Set_task_failed i s msg) d =
     d\<lparr>premium_queue :=
        map (\<lambda>t. if task_id t = i
                 then t\<lparr>qt_status := s, error_message := msg, retry_count := retry_count t + 1\<rparr>
                 else t) (premium_queue d)\<rparr>"

record world =
  db :: database
  conn :: "db_write list"
  outbox :: "int list"
  drawn :: nat
  activations :: nat

text \<open>
  \<open>db\<close> is the committed database and \<open>conn\<close> the pending writes of the connection in
  scope. \<open>outbox\<close> lists the chat ids of the \<^verbatim>\<open>send_message\<close> calls made so far,
  \<open>drawn\<close> counts the calls of \<^verbatim>\<open>generate_order_id\<close> and \<open>activations\<close> those of
  \<^verbatim>\<open>activate_premium\<close>; the three index what the outside world answers. An action
  runs on a world and either raises or returns.
\<close>

type_synonym 'a action = "world \<Rightarrow> (exn + 'a) \<times> world"

definition ret :: "'a \<Rightarrow> 'a action" where
  "ret a w = (Inr a, w)"

definition raise_exn :: "exn \<Rightarrow> 'a action" where
  "raise_exn e w = (Inl e, w)"

definition and_then :: "'a action \<Rightarrow> ('a \<Rightarrow> 'b action) \<Rightarrow> 'b action" where
  "and_then m f w = (case m w of (Inl e, w') \<Rightarrow> (Inl e, w') | (Inr a, w') \<Rightarrow> f a w')"

definition try_except :: "'a action \<Rightarrow> (exn \<Rightarrow> 'a action) \<Rightarrow> 'a action" where
  "try_except m h w = (case m w of (Inl e, w') \<Rightarrow> h e w' | (Inr a, w') \<Rightarrow> (Inr a, w'))"

definition conn_view :: "world \<Rightarrow> database" where
  "conn_view w = fold apply_write (conn w) (db w)"

definition execute :: "db_write \<Rightarrow> unit action" where
  "execute wr w = (Inr (), w\<lparr>conn := conn w @ [wr]\<rparr>)"

definition conn_commit :: "unit action" where
  "conn_commit w = (Inr (), w\<lparr>db := conn_view w, conn := []\<rparr>)"

definition conn_rollback :: "unit action" where
  "conn_rollback w = (Inr (), w\<lparr>conn := []\<rparr>)"

text \<open>\<^verbatim>\<open>conn.begin()\<close> sends \<^verbatim>\<open>BEGIN\<close>, which commits the transaction that is open.\<close>

definition conn_begin :: "unit action" where
  "conn_begin = conn_commit"

text \<open>
  \<^verbatim>\<open>get_db\<close> acquires a connection of its own, runs the body, and on a normal exit
  executes \<^verbatim>\<open>if conn.autocommit: await conn.commit()\<close>. On an aiomysql connection
  \<^verbatim>\<open>autocommit\<close> is the coroutine method that sets the mode (the mode itself is read
  with \<^verbatim>\<open>get_autocommit()\<close>), so the tested object is a bound method and the commit is
  always executed. On an exception the connection is rolled back and the exception is
  raised again. The connection of the caller is untouched in both cases.
\<close>

definition conn_autocommit_truthy :: bool where
  "conn_autocommit_truthy = True"

definition get_db :: "'a action \<Rightarrow> 'a action" where
  "get_db body w =
     (case body (w\<lparr>conn := []\<rparr>) of
        (Inr a, w1) \<Rightarrow>
          (Inr a, (if conn_autocommit_truthy then snd (conn_commit w1) else snd (conn_rollback w1))
                    \<lparr>conn := conn w\<rparr>)
      | (Inl e, w1) \<Rightarrow> (Inl e, (snd (conn_rollback w1))\<lparr>conn := conn w\<rparr>))"

subsection \<open>Ledger\<close>

text \<open>
  \<^verbatim>\<open>Decimal(str(result[0])) if result else Decimal('0.0')\<close> on the row the connection
  sees for the account.
\<close>

definition stored_balance :: "world \<Rightarrow> int \<Rightarrow> rat" where
  "stored_balance w uid = (case user_balances (conn_view w) uid of None \<Rightarrow> 0 | Some b \<Rightarrow> b)"

definition select_balance :: "int \<Rightarrow> rat action" where
  "select_balance uid w = (Inr (stored_balance w uid), w)"

definition get_balance :: "int \<Rightarrow> rat action" where
  "get_balance uid = get_db (select_balance uid)"

definition set_balance :: "int \<Rightarrow> rat \<Rightarrow> rat action" where
  "set_balance uid amount =
     and_then (select_balance uid) (\<lambda>current_balance.
       let new_balance = current_balance + amount in
       if new_balance < 0 then raise_exn (ValueError_debit current_balance \<bar>amount\<bar>)
       else and_then (execute (Upsert_balance uid new_balance)) (\<lambda>_. ret new_balance))"

subsection \<open>The outside world\<close>

text \<open>
  What the collaborators answer is an input. \<open>provider_run\<close> holds the outcome of each
  external step of one \<^verbatim>\<open>activate_premium\<close> call, in call order: the four Fragment
  requests, the wallet balance read, the decoded payment request (payload reference,
  \<^verbatim>\<open>pay_amount\<close> as text and as \<^verbatim>\<open>float(pay_amount)\<close>) and the TON transfer. Each
  either raises or returns. \<open>telegram env n\<close> is the outcome of call number \<open>n\<close> of
  \<^verbatim>\<open>context.bot.send_message\<close>: delivered (\<open>None\<close>) or a \<^verbatim>\<open>TelegramError\<close> with its text
  and \<^verbatim>\<open>status_code\<close>. \<open>uuid4 env n\<close> is the identifier drawn by call number \<open>n\<close> of
  \<^verbatim>\<open>generate_order_id\<close>. \<^verbatim>\<open>send_to_admin\<close>, which posts to the Bot API, catches
  every exception and touches no table, is left out.
\<close>

record provider_run =
  searchPremiumGiftRecipient :: "exn + unit"
  price_check :: "exn + rat"
  check_wallet_balance :: "exn + rat"
  initGiftPremiumRequest :: "exn + pystr \<times> rat"
  updatePremiumState :: "exn + unit"
  getGiftPremiumLink :: "exn + unit"
  get_raw_request :: "exn + pystr \<times> pystr \<times> rat"
  transfer_ton :: "exn + pystr"

record env =
  PRICES :: "nat \<rightharpoonup> rat"
  ADMIN_IDS :: "int list"
  credentials :: bool
  fragment :: "nat \<Rightarrow> provider_run"
  uuid4 :: "nat \<Rightarrow> pystr"
  telegram :: "nat \<Rightarrow> (pystr \<times> nat option) option"
  random_uniform :: "nat \<Rightarrow> rat"
  now_at :: "nat \<Rightarrow> int"

text \<open>
  An external step answers with its recorded outcome and touches nothing.
\<close>

definition external :: "exn + 'a \<Rightarrow> 'a action" where
  "external r w = (r, w)"

text \<open>
  A call of \<^verbatim>\<open>context.bot.send_message\<close>: the chat id joins the outbox whether or not the
  message is delivered.
\<close>

definition send_message :: "env \<Rightarrow> int \<Rightarrow> unit action" where
  "send_message env chat_id w =
     (let w' = w\<lparr>outbox := outbox w @ [chat_id]\<rparr> in
      case telegram env (length (outbox w)) of
        None \<Rightarrow> (Inr (), w')
      | Some (text, status_code) \<Rightarrow> (Inl (TelegramError text status_code), w'))"

text \<open>
  \<^verbatim>\<open>str(uuid.uuid4())[:8]\<close> is the next identifier the environment draws. \<^verbatim>\<open>order_id\<close> is
  the primary key of \<^verbatim>\<open>purchase_orders\<close>: inserting one that is present raises.
\<close>

definition generate_order_id :: "env \<Rightarrow> pystr action" where
  "generate_order_id env w = (Inr (uuid4 env (drawn w)), w\<lparr>drawn := Suc (drawn w)\<rparr>)"

definition insert_purchase_order :: "purchase_order \<Rightarrow> unit action" where
  "insert_purchase_order r w =
     (if order_id r \<in> set (map order_id (purchase_orders (conn_view w)))
      then (Inl IntegrityError, w)
      else execute (Insert_purchase_order r) w)"

definition record_purchase_order ::
  "env \<Rightarrow> int \<Rightarrow> pystr \<Rightarrow> nat \<Rightarrow> rat \<Rightarrow> order_status \<Rightarrow> pystr action" where
  "record_purchase_order env telegram_id username duration amount status =
     and_then (generate_order_id env) (\<lambda>oid.
     and_then (insert_purchase_order
        \<lparr>order_id = oid, po_telegram_id = telegram_id, po_username = username,
         po_duration = duration, po_amount = amount, po_status = status\<rparr>) (\<lambda>_.
     ret oid))"

text \<open>
  \<open>is_order_completed rid with_conn\<close>: \<open>with_conn\<close> tells whether \<^verbatim>\<open>conn\<close> and \<^verbatim>\<open>cursor\<close>
  were passed; without them the function opens a connection of its own.
  \<^verbatim>\<open>record_completed_order\<close> looks the request id up and inserts only when it is absent.
\<close>

definition select_completed :: "pystr \<Rightarrow> bool action" where
  "select_completed rid w = (Inr (rid \<in> set (map req_id (completed_orders (conn_view w)))), w)"

definition is_order_completed :: "pystr \<Rightarrow> bool \<Rightarrow> bool action" where
  "is_order_completed rid with_conn =
     (if \<not> with_conn then get_db (select_completed rid) else select_completed rid)"

definition record_completed_order ::
  "pystr \<Rightarrow> int \<Rightarrow> pystr \<Rightarrow> nat \<Rightarrow> rat \<Rightarrow> pystr \<Rightarrow> bool action" where
  "record_completed_order rid telegram_id username duration amount tx =
     and_then (select_completed rid) (\<lambda>found.
       if found then ret False
       else and_then (execute (Insert_completed_order
              \<lparr>req_id = rid, co_telegram_id = telegram_id, co_username = username,
               co_duration = duration, co_amount = amount, co_tx_hash = tx\<rparr>)) (\<lambda>_.
            ret True))"

text \<open>
  \<^verbatim>\<open>activate_premium\<close> calls
  \<^verbatim>\<open>record_completed_order(req_id, telegram_id, username, duration, float(pay_amount), tx_hash)\<close>:
  six arguments for a function whose parameters \<^verbatim>\<open>conn\<close> and \<^verbatim>\<open>cursor\<close> have no default.
  Python raises \<^verbatim>\<open>TypeError\<close> when it binds the arguments; the body does not run.
\<close>

definition record_completed_order_without_conn ::
  "pystr \<Rightarrow> int \<Rightarrow> pystr \<Rightarrow> nat \<Rightarrow> rat \<Rightarrow> pystr \<Rightarrow> bool action" where
  "record_completed_order_without_conn rid telegram_id username duration amount tx =
     raise_exn TypeError"

text \<open>
  The queue. \<^verbatim>\<open>lastrowid\<close> is the \<^verbatim>\<open>AUTO_INCREMENT\<close> id: one more than the largest id, as
  no row of \<^verbatim>\<open>premium_queue\<close> is ever deleted. \<^verbatim>\<open>get_next_queue_task\<close> takes the first
  pending row in creation order and sets it to processing.
  \<^verbatim>\<open>update_queue_task_status\<close> stores the message and adds 1 to \<^verbatim>\<open>retry_count\<close> exactly when
  the new status is failed.
\<close>

definition add_to_premium_queue :: "int \<Rightarrow> pystr \<Rightarrow> nat \<Rightarrow> nat action" where
  "add_to_premium_queue telegram_id username duration =
     get_db (\<lambda>w.
       let lastrowid = Suc (foldr max (map task_id (premium_queue (conn_view w))) 0) in
       and_then (execute (Insert_queue_task
          \<lparr>task_id = lastrowid, qt_telegram_id = telegram_id, qt_username = username,
           qt_duration = duration, qt_status = Pending, retry_count = 0,
           error_message = None\<rparr>)) (\<lambda>_.
       and_then conn_commit (\<lambda>_.
       ret lastrowid)) w)"

definition get_next_queue_task :: "(nat \<times> int \<times> pystr \<times> nat \<times> nat) option action" where
  "get_next_queue_task =
     get_db (\<lambda>w.
       case find (\<lambda>t. qt_status t = Pending) (premium_queue (conn_view w)) of
         None \<Rightarrow> ret None w
       | Some t \<Rightarrow>
           and_then (execute (Set_task_status (task_id t) Processing)) (\<lambda>_.
           and_then conn_commit (\<lambda>_.
           ret (Some (task_id t, qt_telegram_id t, qt_username t, qt_duration t, retry_count t)))) w)"

definition update_queue_task_status :: "nat \<Rightarrow> queue_status \<Rightarrow> error_text option \<Rightarrow> unit action" where
  "update_queue_task_status tid status msg =
     get_db (and_then
       (if status = Failed then execute (Set_task_failed tid status msg)
        else execute (Set_task_status tid status)) (\<lambda>_.
       conn_commit))"


subsection \<open>Text\<close>

text \<open>
  \<open>py_split s sep\<close> is \<^verbatim>\<open>s.split(sep)\<close> for a separator that is not empty (both call
  sites pass a literal): the pieces between the occurrences of \<open>sep\<close>, found left to
  right without overlap. \<open>py_str n\<close> is \<^verbatim>\<open>str(n)\<close>. The message literals of the
  source follow as code points; \<open>order_number_marker\<close> is the label "order number"
  followed by a colon and a space.
\<close>

function py_split_acc :: "'a list \<Rightarrow> 'a list \<Rightarrow> 'a list \<Rightarrow> 'a list list" where
  "py_split_acc sep acc [] = [rev acc]"
| "py_split_acc sep acc (x # xs) =
     (if sep \<noteq> [] \<and> prefix sep (x # xs)
      then rev acc # py_split_acc sep [] (drop (length sep) (x # xs))
      else py_split_acc sep (x # acc) xs)"
  by pat_completeness auto
termination
  by (relation "measure (\<lambda>(sep, acc, s). length s)") auto

definition py_split :: "'a list \<Rightarrow> 'a list \<Rightarrow> 'a list list" where
  "py_split s sep = py_split_acc sep [] s"

function py_str :: "nat \<Rightarrow> pystr" where
  "py_str n = (if n < 10 then [48 + n] else py_str (n div 10) @ [48 + n mod 10])"
  by pat_completeness auto
termination
  by (relation "measure (\<lambda>n. n)") auto

declare py_str.simps [simp del]

text \<open>
  In English the literals read: the marker, "order number: "; missing parameters,
  "activation failed, try again later or contact support"; invalid duration, "invalid
  subscription duration, choose 3, 6 or 12 months"; user not found, "the user name you
  entered does not exist, opening the membership failed"; activation failed, "activation
  failed, try again later or contact the administrator"; retries exceeded, "maximum
  number of retries exceeded"; the prefix, "request failed: No Telegram users found";
  already active, "user U's D Premium is already activated, no need to repeat"; success,
  "activated D of Telegram Premium for U! amount: A TON, order number: R". The two
  exceptions raised inside \<open>activate_premium_steps\<close> say "wallet balance insufficient" and
  "cannot obtain the order data".
\<close>

definition order_number_marker :: pystr where
  "order_number_marker = [0x8ba2, 0x5355, 0x53f7, 0x3a, 0x20]"

definition msg_missing_parameters :: pystr where
  "msg_missing_parameters =
     [0x6fc0, 0x6d3b, 0x5931, 0x8d25, 0xff0c, 0x8bf7, 0x7a0d, 0x540e, 0x91cd, 0x8bd5, 0x6216,
      0x8054, 0x7cfb, 0x5ba2, 0x670d]"

definition msg_invalid_duration :: pystr where
  "msg_invalid_duration =
     [0x65e0, 0x6548, 0x7684, 0x8ba2, 0x9605, 0x65f6, 0x957f, 0xff0c, 0x8bf7, 0x9009, 0x62e9,
      0x33, 0x3001, 0x36, 0x6216, 0x31, 0x32, 0x4e2a, 0x6708]"

definition msg_user_not_found :: pystr where
  "msg_user_not_found =
     [0x60a8, 0x8f93, 0x5165, 0x7684, 0x7528, 0x6237, 0x540d, 0x4e0d, 0x5b58, 0x5728, 0xff0c,
      0x5f00, 0x901a, 0x4f1a, 0x5458, 0x5931, 0x8d25]"

definition msg_activation_failed :: pystr where
  "msg_activation_failed =
     [0x6fc0, 0x6d3b, 0x5931, 0x8d25, 0xff0c, 0x8bf7, 0x7a0d, 0x540e, 0x91cd, 0x8bd5, 0x6216,
      0x8054, 0x7cfb, 0x7ba1, 0x7406, 0x5458]"

definition msg_retries_exceeded :: pystr where
  "msg_retries_exceeded = [0x8d85, 0x8fc7, 0x6700, 0x5927, 0x91cd, 0x8bd5, 0x6b21, 0x6570]"

definition no_users_prefix :: pystr where
  "no_users_prefix =
     [0x8bf7, 0x6c42, 0x5931, 0x8d25, 0x3a, 0x20, 0x4e, 0x6f, 0x20, 0x54, 0x65, 0x6c, 0x65,
      0x67, 0x72, 0x61, 0x6d, 0x20, 0x75, 0x73, 0x65, 0x72, 0x73, 0x20, 0x66, 0x6f, 0x75, 0x6e,
      0x64]"

definition duration_text :: "nat \<Rightarrow> pystr" where
  "duration_text duration =
     (if duration = 12 then [0x31, 0x20, 0x79, 0x65, 0x61, 0x72]
      else py_str duration @ [0x20, 0x6d, 0x6f, 0x6e, 0x74, 0x68, 0x73])"

definition msg_already_active :: "pystr \<Rightarrow> pystr \<Rightarrow> pystr" where
  "msg_already_active username dtext =
     [0x7528, 0x6237, 0x20] @ username @ [0x20, 0x7684, 0x20] @ dtext @
     [0x20, 0x50, 0x72, 0x65, 0x6d, 0x69, 0x75, 0x6d, 0x20, 0x5df2, 0x6fc0, 0x6d3b, 0xff0c,
      0x65e0, 0x9700, 0x91cd, 0x590d, 0x64cd, 0x4f5c]"

definition success_msg :: "pystr \<Rightarrow> pystr \<Rightarrow> pystr \<Rightarrow> pystr \<Rightarrow> pystr" where
  "success_msg username dtext pay_amount rid =
     [0x6210, 0x529f, 0x4e3a, 0x20] @ username @ [0x20, 0x6fc0, 0x6d3b, 0x20] @ dtext @
     [0x20, 0x7684, 0x20, 0x54, 0x65, 0x6c, 0x65, 0x67, 0x72, 0x61, 0x6d, 0x20, 0x50, 0x72,
      0x65, 0x6d, 0x69, 0x75, 0x6d, 0xff01, 0x91d1, 0x989d, 0x3a, 0x20] @ pay_amount @
     [0x20, 0x54, 0x4f, 0x4e, 0xff0c, 0x8ba2, 0x5355, 0x53f7, 0x3a, 0x20] @ rid"

text \<open>
  \<^verbatim>\<open>str(e).startswith(p)\<close>. Only an \<^verbatim>\<open>Exception\<close> or \<^verbatim>\<open>TelegramError\<close> prints as its
  message; the text of the other exceptions does not begin with \<open>no_users_prefix\<close>.
\<close>

fun str_startswith :: "exn \<Rightarrow> pystr \<Rightarrow> bool" where
  "str_startswith (Exception text) p = prefix p text"
| "str_startswith (TelegramError text status_code) p = prefix p text"
| "str_startswith e p = False"

subsection \<open>Fulfillment client (premium_service.py)\<close>

text \<open>
  \<open>activate_premium_steps\<close> is the body of the \<^verbatim>\<open>try\<close> block: recipient search, price
  check, wallet balance, order creation, the early return when the request id is already
  recorded, state update, confirmation, payment request, transfer, and the call of
  \<^verbatim>\<open>record_completed_order\<close> before the success return. \<open>activate_premium\<close> puts the two
  parameter checks in front and the \<^verbatim>\<open>except Exception\<close> handler around it. The first
  check is \<^verbatim>\<open>all([username, duration, HASH, COOKIE, MNEMONIC, ADMIN_IDS, BOT_TOKEN])\<close>;
  \<open>credentials\<close> stands for the four environment strings.
\<close>

definition activate_premium_steps ::
  "provider_run \<Rightarrow> pystr \<Rightarrow> nat \<Rightarrow> int \<Rightarrow> (bool \<times> pystr \<times> rat option) action" where
  "activate_premium_steps run username duration telegram_id =
     and_then (external (searchPremiumGiftRecipient run)) (\<lambda>_.
     and_then (external (price_check run)) (\<lambda>estimated_amount.
     and_then (external (check_wallet_balance run)) (\<lambda>balance.
     if balance < estimated_amount
     then raise_exn (Exception [0x94b1, 0x5305, 0x4f59, 0x989d, 0x4e0d, 0x8db3])
     else
     and_then (external (initGiftPremiumRequest run)) (\<lambda>(rid, amount).
     and_then (is_order_completed rid False) (\<lambda>completed.
     if completed
     then ret (True, msg_already_active username (duration_text duration), Some amount)
     else
     and_then (external (updatePremiumState run)) (\<lambda>_.
     and_then (external (getGiftPremiumLink run)) (\<lambda>_.
     and_then (external (get_raw_request run)) (\<lambda>(payload, pay_amount, pay_value).
     if payload = []
     then raise_exn (Exception [0x65e0, 0x6cd5, 0x83b7, 0x53d6, 0x8ba2, 0x5355, 0x6570, 0x636e])
     else
     and_then (external (transfer_ton run)) (\<lambda>tx.
     and_then (record_completed_order_without_conn rid telegram_id username duration
                 pay_value tx) (\<lambda>_.
     ret (True, success_msg username (duration_text duration) pay_amount rid,
          Some pay_value)))))))))))"

definition activate_premium ::
  "env \<Rightarrow> pystr \<Rightarrow> nat \<Rightarrow> int \<Rightarrow> (bool \<times> pystr \<times> rat option) action" where
  "activate_premium env username duration telegram_id w =
     (let run = fragment env (activations w);
          w' = w\<lparr>activations := Suc (activations w)\<rparr>
      in if \<not> (username \<noteq> [] \<and> duration \<noteq> 0 \<and> credentials env \<and> ADMIN_IDS env \<noteq> [])
         then (Inr (False, msg_missing_parameters, None), w')
         else if duration \<notin> {3, 6, 12}
         then (Inr (False, msg_invalid_duration, None), w')
         else try_except (activate_premium_steps run username duration telegram_id)
                (\<lambda>e. if str_startswith e no_users_prefix
                     then ret (False, msg_user_not_found, None)
                     else ret (False, msg_activation_failed, None)) w')"

subsection \<open>Fulfillment queue (bot.py)\<close>

text \<open>
  \<^verbatim>\<open>process_purchase\<close>. \<^verbatim>\<open>get_balance\<close> reads through a connection of its own;
  \<^verbatim>\<open>Decimal(str(actual_amount))\<close> raises when \<^verbatim>\<open>actual_amount\<close> is \<^verbatim>\<open>None\<close>.
\<close>

definition process_purchase ::
  "env \<Rightarrow> int \<Rightarrow> pystr \<Rightarrow> nat \<Rightarrow> rat option \<Rightarrow> (pystr \<times> rat) action" where
  "process_purchase env user_id username duration actual_amount =
     try_except
       (and_then conn_begin (\<lambda>_.
        and_then (get_balance user_id) (\<lambda>balance.
        case actual_amount of
          None \<Rightarrow> raise_exn InvalidOperation
        | Some amount \<Rightarrow>
            if balance < amount then raise_exn (ValueError_balance balance amount)
            else
            and_then (set_balance user_id (- amount)) (\<lambda>new_balance.
            and_then (record_purchase_order env user_id username duration amount Paid) (\<lambda>oid.
            and_then conn_commit (\<lambda>_.
            ret (oid, new_balance)))))))
       (\<lambda>e. and_then conn_rollback (\<lambda>_. raise_exn e))"

text \<open>
  \<^verbatim>\<open>message.split(marker)[1].split(newline)[0]\<close>: \<^verbatim>\<open>IndexError\<close> when the marker does not
  occur in the message.
\<close>

definition order_number_of :: "pystr \<Rightarrow> pystr action" where
  "order_number_of message =
     (case py_split message order_number_marker of
        _ # part # _ \<Rightarrow>
          (case py_split part [0x0a] of line # _ \<Rightarrow> ret line | [] \<Rightarrow> raise_exn IndexError)
      | _ \<Rightarrow> raise_exn IndexError)"

definition lookup_price :: "env \<Rightarrow> nat \<Rightarrow> rat action" where
  "lookup_price env duration =
     (case PRICES env duration of None \<Rightarrow> raise_exn (KeyError duration) | Some p \<Rightarrow> ret p)"

text \<open>
  \<open>settle_task\<close> is the block that follows the \<^verbatim>\<open>activate_premium\<close> call inside the
  \<^verbatim>\<open>async with\<close>: the branches under \<^verbatim>\<open>if success\<close>. \<open>process_task_with\<close> is one
  iteration of the \<^verbatim>\<open>while\<close> loop for a claimed task, with the \<^verbatim>\<open>activate_premium\<close> call as
  a parameter; \<open>process_task\<close> is the iteration as written. \<open>process_premium_queue\<close>
  counts the iterations left.
\<close>

definition settle_task ::
  "env \<Rightarrow> nat \<Rightarrow> int \<Rightarrow> pystr \<Rightarrow> nat \<Rightarrow> bool \<times> pystr \<times> rat option \<Rightarrow> unit action" where
  "settle_task env tid telegram_id username duration result =
     (case result of (success, message, actual_amount) \<Rightarrow>
        if success then
          and_then (order_number_of message) (\<lambda>rid.
          and_then (is_order_completed rid True) (\<lambda>completed.
          if completed then
            and_then (record_purchase_order env telegram_id username duration 0 Repeated) (\<lambda>_.
            and_then (update_queue_task_status tid Completed None) (\<lambda>_.
            send_message env telegram_id))
          else
            and_then (process_purchase env telegram_id username duration actual_amount) (\<lambda>_.
            and_then (case actual_amount of
                        None \<Rightarrow> raise_exn InvalidOperation
                      | Some amount \<Rightarrow>
                          record_completed_order rid telegram_id username duration amount
                            [0x4e, 0x2f, 0x41]) (\<lambda>_.
            and_then (update_queue_task_status tid Completed None) (\<lambda>_.
            send_message env telegram_id)))))
        else
          and_then (record_purchase_order env telegram_id username duration 0 Unpaid) (\<lambda>_.
          and_then (update_queue_task_status tid Failed (Some (Text message))) (\<lambda>_.
          send_message env telegram_id)))"

definition max_retries :: nat where
  "max_retries = 3"

definition process_task_with ::
  "env \<Rightarrow> (bool \<times> pystr \<times> rat option) action \<Rightarrow> nat \<times> int \<times> pystr \<times> nat \<times> nat \<Rightarrow> unit action" where
  "process_task_with env activation task =
     (case task of (tid, telegram_id, username, duration, retries) \<Rightarrow>
        if retries \<ge> max_retries then
          and_then (update_queue_task_status tid Failed (Some (Text msg_retries_exceeded))) (\<lambda>_.
          send_message env telegram_id)
        else
          try_except
            (and_then (lookup_price env duration) (\<lambda>ref_amount.
             get_db (
               and_then (get_balance telegram_id) (\<lambda>balance.
               if balance < ref_amount then raise_exn (ValueError_balance balance ref_amount)
               else and_then activation (settle_task env tid telegram_id username duration)))))
            (\<lambda>e. and_then (update_queue_task_status tid Failed (Some (Str e))) (\<lambda>_.
                 send_message env telegram_id)))"

definition process_task :: "env \<Rightarrow> nat \<times> int \<times> pystr \<times> nat \<times> nat \<Rightarrow> unit action" where
  "process_task env task =
     (case task of (tid, telegram_id, username, duration, retries) \<Rightarrow>
        process_task_with env (activate_premium env username duration telegram_id) task)"

fun process_premium_queue :: "env \<Rightarrow> nat \<Rightarrow> unit action" where
  "process_premium_queue env 0 = ret ()"
| "process_premium_queue env (Suc remaining) =
     and_then get_next_queue_task (\<lambda>task.
       case task of
         None \<Rightarrow> ret ()
       | Some t \<Rightarrow> and_then (process_task env t) (\<lambda>_. process_premium_queue env remaining))"

subsection \<open>Deposit matcher (usdtpay.py)\<close>

text \<open>
  \<^verbatim>\<open>round(x, 4)\<close>, ties to even. \<open>random_uniform env n\<close> is draw number \<open>n\<close> of
  \<^verbatim>\<open>random.uniform(0.001, 0.01)\<close>. The loop of \<^verbatim>\<open>generate_unique_usdt_amount\<close> has no
  bound, so the function is partial: \<open>None\<close> is the loop that never returns. Each
  iteration reads the committed table through a connection of its own.
\<close>

definition py_round4 :: "rat \<Rightarrow> rat" where
  "py_round4 x =
     (let y = x * 10000; f = \<lfloor>y\<rfloor>; d = y - of_int f
      in if d < 1 / 2 then of_int f / 10000
         else if 1 / 2 < d then of_int (f + 1) / 10000
         else if even f then of_int f / 10000 else of_int (f + 1) / 10000)"

definition open_with_amount :: "database \<Rightarrow> rat \<Rightarrow> bool" where
  "open_with_amount d a = (\<exists>r \<in> set (usdtpay d). dep_amount r = a \<and> dep_status r = 0)"

partial_function (option) generate_unique_usdt_amount ::
  "env \<Rightarrow> nat \<Rightarrow> rat \<Rightarrow> database \<Rightarrow> rat option" where
  "generate_unique_usdt_amount env n base_amount d =
     (let offset = random_uniform env n;
          unique_amount = py_round4 (base_amount + offset)
      in if \<not> open_with_amount d unique_amount then Some unique_amount
         else generate_unique_usdt_amount env (Suc n) base_amount d)"





text \<open>
  \<^verbatim>\<open>cleanup_expired_orders\<close>. \<open>user_blocked\<close> is the test on the lowered error text and
  the status code; texts of the Bot API are ASCII, so lowering touches the letters A to
  Z. \<open>notify_expired\<close> is the \<^verbatim>\<open>while not notified and retries < 3\<close> loop,
  \<open>collect_expired\<close> the \<^verbatim>\<open>for\<close> loop over the fetched rows; \<open>now_at env i\<close> is what
  \<^verbatim>\<open>datetime.now()\<close> returns while row number \<open>i\<close> is examined.
\<close>

fun py_contains :: "'a list \<Rightarrow> 'a list \<Rightarrow> bool" where
  "py_contains sub [] = (sub = [])"
| "py_contains sub (x # xs) = (prefix sub (x # xs) \<or> py_contains sub xs)"

definition py_lower :: "pystr \<Rightarrow> pystr" where
  "py_lower s = map (\<lambda>c. if 0x41 \<le> c \<and> c \<le> 0x5a then c + 0x20 else c) s"

definition user_blocked :: "pystr \<Rightarrow> nat option \<Rightarrow> bool" where
  "user_blocked text status_code =
     (let err_text = py_lower text
      in py_contains [0x66, 0x6f, 0x72, 0x62, 0x69, 0x64, 0x64, 0x65, 0x6e] err_text
         \<or> py_contains [0x62, 0x6f, 0x74, 0x20, 0x77, 0x61, 0x73, 0x20, 0x62, 0x6c, 0x6f, 0x63,
                         0x6b, 0x65, 0x64] err_text
         \<or> status_code = Some 403)"

function notify_expired :: "env \<Rightarrow> int \<Rightarrow> nat \<Rightarrow> unit action" where
  "notify_expired env telegram_id retries w =
     (if retries < 3 then
        (case send_message env telegram_id w of
           (Inr _, w') \<Rightarrow> (Inr (), w')
         | (Inl (TelegramError text status_code), w') \<Rightarrow>
             if user_blocked text status_code then (Inr (), w')
             else notify_expired env telegram_id (retries + 1) w'
         | (Inl e, w') \<Rightarrow> (Inl e, w'))
      else (Inr (), w))"
  by pat_completeness auto
termination
  by (relation "measure (\<lambda>(env, telegram_id, retries, w). 3 - retries)") auto

declare notify_expired.simps [simp del]

fun collect_expired :: "env \<Rightarrow> nat \<Rightarrow> deposit_order list \<Rightarrow> pystr list action" where
  "collect_expired env i [] = ret []"
| "collect_expired env i (r # rs) =
     (if dep_status r \<noteq> 0 then collect_expired env (Suc i) rs
      else case expires_at r of
        None \<Rightarrow> collect_expired env (Suc i) rs
      | Some expires \<Rightarrow>
          if expires < now_at env i then
            and_then (notify_expired env (dep_telegram_id r) 0) (\<lambda>_.
            and_then (collect_expired env (Suc i) rs) (\<lambda>to_delete.
            ret (out_trade_no r # to_delete)))
          else collect_expired env (Suc i) rs)"

fun executemany_delete :: "pystr list \<Rightarrow> unit action" where
  "executemany_delete [] = ret ()"
| "executemany_delete (k # ks) =
     and_then (execute (Delete_deposit k)) (\<lambda>_. executemany_delete ks)"

definition cleanup_expired_orders :: "env \<Rightarrow> unit action" where
  "cleanup_expired_orders env =
     try_except
       (get_db (\<lambda>w.
          and_then (collect_expired env 0 (usdtpay (conn_view w))) (\<lambda>to_delete.
            if to_delete \<noteq> [] then
              and_then (executemany_delete to_delete) (\<lambda>_. conn_commit)
            else ret ()) w))
       (\<lambda>e. ret ())"

subsection \<open>Worlds used in the examples\<close>

definition ledger_world :: world where
  "ledger_world = \<lparr>db = \<lparr>user_balances = [1 \<mapsto> 50], usdtpay = [], okusdt = [],
       purchase_orders = [], completed_orders = [], premium_queue = []\<rparr>, conn = [], outbox = [],
       drawn = 0, activations = 0\<rparr>"

definition alice :: pystr where
  "alice = [0x61, 0x6c, 0x69, 0x63, 0x65]"

definition settlement_R1 :: pystr where
  "settlement_R1 = [0x52, 0x31]"

text \<open>
  A provider run in which every external step succeeds: Fragment issues the request id
  \<^verbatim>\<open>R1\<close>, the payment request costs 29.8 and the transfer returns a hash.
\<close>

definition provider_success_R1 :: provider_run where
  "provider_success_R1 =
     \<lparr>searchPremiumGiftRecipient = Inr (), price_check = Inr (149 / 5),
      check_wallet_balance = Inr 100, initGiftPremiumRequest = Inr (settlement_R1, 149 / 5),
      updatePremiumState = Inr (), getGiftPremiumLink = Inr (),
      get_raw_request = Inr ([0x61, 0x62, 0x63], [0x32, 0x39, 0x2e, 0x38], 149 / 5),
      transfer_ton = Inr [0x68, 0x61, 0x73, 0x68]\<rparr>"

definition provider_down :: provider_run where
  "provider_down = provider_success_R1\<lparr>searchPremiumGiftRecipient :=
     Inl (Exception [0x74, 0x69, 0x6d, 0x65, 0x6f, 0x75, 0x74])\<rparr>"

definition shop_env :: env where
  "shop_env =
     \<lparr>PRICES = [3 \<mapsto> 30, 6 \<mapsto> 55, 12 \<mapsto> 100], ADMIN_IDS = [9], credentials = True,
      fragment = (\<lambda>n. provider_success_R1), uuid4 = (\<lambda>n. [0x6f, 0x30 + n]),
      telegram = (\<lambda>n. None), random_uniform = (\<lambda>n. 1 / 200), now_at = (\<lambda>n. 0)\<rparr>"

definition outage_env :: env where
  "outage_env = shop_env\<lparr>fragment := (\<lambda>n. provider_down)\<rparr>"


definition pending_task :: queue_task where
  "pending_task = \<lparr>task_id = 1, qt_telegram_id = 1, qt_username = alice, qt_duration = 3,
     qt_status = Pending, retry_count = 0, error_message = None\<rparr>"

definition queued_world :: world where
  "queued_world = ledger_world\<lparr>db := (db ledger_world)\<lparr>premium_queue := [pending_task]\<rparr>\<rparr>"


definition poor_world :: world where
  "poor_world = queued_world\<lparr>db := (db queued_world)\<lparr>user_balances := [1 \<mapsto> 10]\<rparr>\<rparr>"

text \<open>
  What \<^verbatim>\<open>activate_premium\<close> would hand to the queue if its last statement were reached:
  success, the success message carrying the request id, and the realized cost.
\<close>

definition reported_success :: "(bool \<times> pystr \<times> rat option) action" where
  "reported_success =
     ret (True, success_msg alice (duration_text 3) [0x32, 0x39, 0x2e, 0x38] settlement_R1,
          Some (149 / 5))"

definition order_open :: deposit_order where
  "order_open = \<lparr>out_trade_no = [0x75, 0x31], dep_telegram_id = 1, expires_at = Some 1200,
     dep_status = 0, dep_amount = 100043 / 10000\<rparr>"

definition order_expired :: deposit_order where
  "order_expired = \<lparr>out_trade_no = [0x75, 0x32], dep_telegram_id = 1, expires_at = Some 100,
     dep_status = 0, dep_amount = 200081 / 10000\<rparr>"

definition order_matched :: deposit_order where
  "order_matched = \<lparr>out_trade_no = [0x75, 0x33], dep_telegram_id = 1, expires_at = Some 100,
     dep_status = 1, dep_amount = 50021 / 10000\<rparr>"

definition order_canceled :: deposit_order where
  "order_canceled = \<lparr>out_trade_no = [0x75, 0x34], dep_telegram_id = 1, expires_at = Some 100,
     dep_status = 2, dep_amount = 100043 / 10000\<rparr>"

definition deposit_world :: world where
  "deposit_world = ledger_world\<lparr>db := (db ledger_world)\<lparr>usdtpay :=
     [order_open, order_expired, order_matched, order_canceled]\<rparr>\<rparr>"


text \<open>
  The condition under which the sweep puts row number \<open>i\<close> of the table on its delete
  list: the order is open, its expiry is a time, and that time is before the clock
  reading taken for the row. \<open>expired_rows\<close> and \<open>surviving_rows\<close> split a table by it.
\<close>

definition expired_at :: "env \<Rightarrow> nat \<Rightarrow> deposit_order \<Rightarrow> bool" where
  "expired_at env i r =
     (dep_status r = 0 \<and> (case expires_at r of None \<Rightarrow> False | Some t \<Rightarrow> t < now_at env i))"

definition expired_rows :: "env \<Rightarrow> nat \<Rightarrow> deposit_order list \<Rightarrow> deposit_order list" where
  "expired_rows env i rows = map snd (filter (\<lambda>(j, r). expired_at env j r) (enumerate i rows))"

definition surviving_rows :: "env \<Rightarrow> nat \<Rightarrow> deposit_order list \<Rightarrow> deposit_order list" where
  "surviving_rows env i rows = map snd (filter (\<lambda>(j, r). \<not> expired_at env j r) (enumerate i rows))"

definition sweep_env :: env where
  "sweep_env = shop_env\<lparr>now_at := (\<lambda>i. 500), telegram := (\<lambda>n.
     if n = 0 then Some ([0x54, 0x69, 0x6d, 0x65, 0x64, 0x20, 0x6f, 0x75, 0x74], None)
     else Some ([0x46, 0x6f, 0x72, 0x62, 0x69, 0x64, 0x64, 0x65, 0x6e, 0x3a, 0x20, 0x62, 0x6f,
                 0x74, 0x20, 0x77, 0x61, 0x73, 0x20, 0x62, 0x6c, 0x6f, 0x63, 0x6b, 0x65, 0x64,
                 0x20, 0x62, 0x79, 0x20, 0x74, 0x68, 0x65, 0x20, 0x75, 0x73, 0x65, 0x72], None))\<rparr>"

text \<open>
  Two observations on the committed database, used to state what a drain step leaves
  behind: the ledger, the settlement records and the set of queued tasks are as before;
  every task with the given id has status failed.
\<close>

definition untouched :: "database \<Rightarrow> database \<Rightarrow> bool" where
  "untouched d d' =
     (user_balances d' = user_balances d \<and> completed_orders d' = completed_orders d
      \<and> map task_id (premium_queue d') = map task_id (premium_queue d))"

definition failed_in :: "nat \<Rightarrow> database \<Rightarrow> bool" where
  "failed_in tid d = (\<forall>t \<in> set (premium_queue d). task_id t = tid \<longrightarrow> qt_status t = Failed)"

section \<open>Ledger properties\<close>

lemma conn_view_execute:
  "conn_view (snd (execute wr w)) = apply_write wr (conn_view w)"
  by (simp add: conn_view_def execute_def)

text \<open>
  C10. An account without a row in \<open>user_balances\<close> reads as balance 0: \<open>get_balance\<close>
  returns 0 without raising, and the world it leaves, committed tables included, is the
  one it started from, so no row is created. An account whose row holds 0 reads the same.
\<close>

theorem get_balance_missing_row:
  assumes "user_balances (db w) uid = None"
  shows "get_balance uid w = (Inr 0, w)
       \<and> (\<forall>v. user_balances (db v) uid = Some 0
              \<longrightarrow> fst (get_balance uid v) = fst (get_balance uid w))"
  using assms
  by (simp add: get_balance_def get_db_def select_balance_def stored_balance_def conn_view_def
      conn_commit_def conn_autocommit_truthy_def)

theorem get_balance_missing_row_witness:
  "user_balances (db (ledger_world\<lparr>db := (db ledger_world)\<lparr>user_balances := Map.empty\<rparr>\<rparr>)) 7 = None
   \<and> get_balance 7 (ledger_world\<lparr>db := (db ledger_world)\<lparr>user_balances := Map.empty\<rparr>\<rparr>)
       = (Inr 0, ledger_world\<lparr>db := (db ledger_world)\<lparr>user_balances := Map.empty\<rparr>\<rparr>)"
  using get_balance_missing_row
    [of "ledger_world\<lparr>db := (db ledger_world)\<lparr>user_balances := Map.empty\<rparr>\<rparr>" 7]
  by simp



section \<open>Fulfillment queue properties\<close>

lemmas action_defs = ret_def raise_exn_def and_then_def try_except_def conn_view_def execute_def
  conn_commit_def conn_rollback_def conn_begin_def get_db_def conn_autocommit_truthy_def
  external_def

lemmas store_defs = select_balance_def stored_balance_def get_balance_def set_balance_def
  send_message_def generate_order_id_def insert_purchase_order_def record_purchase_order_def
  select_completed_def is_order_completed_def record_completed_order_def
  record_completed_order_without_conn_def add_to_premium_queue_def get_next_queue_task_def
  update_queue_task_status_def

lemmas queue_defs = activate_premium_def activate_premium_steps_def process_purchase_def
  lookup_price_def settle_task_def max_retries_def process_task_with_def process_task_def

lemma max_tasks_5:
  "process_premium_queue env 5 = process_premium_queue env (Suc (Suc (Suc (Suc (Suc 0)))))"
proof -
  have "(5::nat) = Suc (Suc (Suc (Suc (Suc 0))))" by simp
  then show ?thesis by (rule arg_cong)
qed

lemma enqueue_gives_queued_world:
  "snd (add_to_premium_queue 1 alice 3 ledger_world) = queued_world"
  by (simp add: action_defs store_defs ledger_world_def queued_world_def pending_task_def Let_def)

lemma order_number_of_success_msg:
  "order_number_of (success_msg alice (duration_text 3) [0x32, 0x39, 0x2e, 0x38] settlement_R1) w
     = (Inr settlement_R1, w)"
  by (simp add: order_number_of_def success_msg_def duration_text_def alice_def
      settlement_R1_def py_split_def order_number_marker_def ret_def raise_exn_def
      py_str.simps [of 3])

text \<open>
  Had \<^verbatim>\<open>activate_premium\<close> reported the success, the queue would have debited 29.8,
  completed the task and recorded the settlement.
\<close>

lemma reported_success_is_settled:
  "(let w = snd (process_task_with shop_env reported_success (1, 1, alice, 3, 0) queued_world)
    in user_balances (db w) 1 = Some (101 / 5)
     \<and> map qt_status (premium_queue (db w)) = [Completed]
     \<and> map req_id (completed_orders (db w)) = [settlement_R1]
     \<and> map po_status (purchase_orders (db w)) = [Paid])"
  by (simp add: action_defs store_defs queue_defs ledger_world_def queued_world_def
      pending_task_def shop_env_def reported_success_def order_number_of_success_msg Let_def)

text \<open>
  C1. The scenario: account 1 holds 50, the three-month tier costs 30, the purchase is
  enqueued, and in the provider run every external step succeeds with request id \<^verbatim>\<open>R1\<close>
  and cost 29.8. \<^verbatim>\<open>activate_premium\<close> then calls \<^verbatim>\<open>record_completed_order\<close> with six
  arguments, the \<^verbatim>\<open>TypeError\<close> lands in its own handler, and it reports failure. One drain
  pass, in which the provider is called once, ends with the balance still 50, the task
  \<open>Failed\<close> with \<open>retry_count\<close> 1 and the failure message recorded, and no row in
  \<open>completed_orders\<close>.
\<close>

theorem scenario_R1_outcome:
  "(let w1 = snd (add_to_premium_queue 1 alice 3 ledger_world);
        w2 = snd (process_premium_queue shop_env 5 w1)
    in user_balances (db w2) 1 = Some 50
     \<and> map qt_status (premium_queue (db w2)) = [Failed]
     \<and> map retry_count (premium_queue (db w2)) = [1]
     \<and> map error_message (premium_queue (db w2)) = [Some (Text msg_activation_failed)]
     \<and> completed_orders (db w2) = []
     \<and> activations w2 = 1)"
  by (simp add: action_defs store_defs queue_defs ledger_world_def shop_env_def
      provider_success_R1_def alice_def settlement_R1_def Let_def max_tasks_5)

text \<open>
  C2. A task with \<open>retry_count\<close> 0 whose activation fails because the provider is down is
  set to \<open>Failed\<close> with \<open>retry_count\<close> 1 and the message recorded. It is not \<open>Pending\<close>
  again: \<open>get_next_queue_task\<close> finds nothing to claim, and a later drain pass with a
  working provider leaves the world as it is.
\<close>

theorem failed_task_not_retried:
  "(let w1 = snd (process_premium_queue outage_env 5 queued_world);
        w2 = snd (process_premium_queue shop_env 5 w1)
    in map qt_status (premium_queue (db w1)) = [Failed]
     \<and> map retry_count (premium_queue (db w1)) = [1]
     \<and> map error_message (premium_queue (db w1)) = [Some (Text msg_activation_failed)]
     \<and> get_next_queue_task w1 = (Inr None, w1)
     \<and> w2 = w1)"
  by (simp add: action_defs store_defs queue_defs ledger_world_def queued_world_def
      pending_task_def shop_env_def outage_env_def provider_down_def provider_success_R1_def
      alice_def settlement_R1_def Let_def max_tasks_5 no_users_prefix_def)


text \<open>
  The balance re-check of the drain on a concrete task: account 1 holds 10, the tier
  costs 30, \<open>retry_count\<close> is 0 before the pass and is not 0 after it.
\<close>

theorem insufficient_funds_counts_as_retry:
  "(let w = snd (process_premium_queue shop_env 5 poor_world)
    in fst (get_balance 1 poor_world) = Inr 10
     \<and> PRICES shop_env 3 = Some 30
     \<and> map retry_count (premium_queue (db poor_world)) = [0]
     \<and> map retry_count (premium_queue (db w)) \<noteq> [0])"
  by (simp add: action_defs store_defs queue_defs ledger_world_def queued_world_def
      poor_world_def pending_task_def shop_env_def provider_success_R1_def
      alice_def settlement_R1_def Let_def max_tasks_5)

text \<open>
  C3, as the code has it. For a claimed task below the retry cap whose tier has a
  price, if the balance read at drain time is below that price, the \<^verbatim>\<open>ValueError\<close> goes
  to the handler of the drain: the task is set to \<open>Failed\<close> with the error recorded and
  \<open>retry_count\<close> incremented by 1. No provider call is made, no balance changes, no row
  is added to \<open>purchase_orders\<close> or \<open>completed_orders\<close>, and the owner is sent one message.
\<close>

theorem insufficient_funds_marks_failed:
  assumes "retries < max_retries"
    and "PRICES env duration = Some price"
    and "fst (get_balance telegram_id w) = Inr balance"
    and "balance < price"
  shows "(let w' = snd (process_task env (tid, telegram_id, username, duration, retries) w)
    in premium_queue (db w')
         = map (\<lambda>t. if task_id t = tid
                  then t\<lparr>qt_status := Failed,
                         error_message := Some (Str (ValueError_balance balance price)),
                         retry_count := retry_count t + 1\<rparr>
                  else t) (premium_queue (db w))
     \<and> user_balances (db w') = user_balances (db w)
     \<and> purchase_orders (db w') = purchase_orders (db w)
     \<and> completed_orders (db w') = completed_orders (db w)
     \<and> activations w' = activations w
     \<and> outbox w' = outbox w @ [telegram_id])"
  using assms
  by (auto simp add: action_defs store_defs queue_defs Let_def split: option.splits prod.splits)

theorem insufficient_funds_marks_failed_witness:
  "(0::nat) < max_retries \<and> PRICES shop_env 3 = Some 30
   \<and> fst (get_balance 1 poor_world) = Inr 10 \<and> (10::rat) < 30
   \<and> map retry_count
        (premium_queue (db (snd (process_task shop_env (1, 1, alice, 3, 0) poor_world)))) = [1]
   \<and> map qt_status
        (premium_queue (db (snd (process_task shop_env (1, 1, alice, 3, 0) poor_world)))) = [Failed]
   \<and> user_balances (db (snd (process_task shop_env (1, 1, alice, 3, 0) poor_world))) 1 = Some 10"
proof -
  have h1: "(0::nat) < max_retries" by (simp add: max_retries_def)
  have h2: "PRICES shop_env 3 = Some 30" by (simp add: shop_env_def)
  have h3: "fst (get_balance 1 poor_world) = Inr 10"
    by (simp add: action_defs store_defs poor_world_def queued_world_def ledger_world_def)
  have h4: "(10::rat) < 30" by simp
  show ?thesis
    using h1 h2 h3 insufficient_funds_marks_failed [OF h1 h2 h3 h4, of 1 alice]
    by (simp add: Let_def poor_world_def queued_world_def ledger_world_def pending_task_def)
qed




section \<open>Deposit matcher properties\<close>








lemmas deposit_world_defs = deposit_world_def ledger_world_def order_open_def order_expired_def
  order_matched_def order_canceled_def




lemma generate_result_is_free:
  assumes "generate_unique_usdt_amount env n base d = Some u"
  shows "\<not> open_with_amount d u \<and> (\<exists>j\<ge>n. u = py_round4 (base + random_uniform env j))"
proof (rule generate_unique_usdt_amount.raw_induct
    [where P = "\<lambda>env n base d u. \<not> open_with_amount d u
                  \<and> (\<exists>j\<ge>n. u = py_round4 (base + random_uniform env j))", OF _ assms])
  fix gen :: "env \<Rightarrow> nat \<Rightarrow> rat \<Rightarrow> database \<Rightarrow> rat option"
    and env n base d u
  assume IH: "\<And>env n base d u. gen env n base d = Some u \<Longrightarrow>
                \<not> open_with_amount d u \<and> (\<exists>j\<ge>n. u = py_round4 (base + random_uniform env j))"
    and step: "(let offset = random_uniform env n;
                    unique_amount = py_round4 (base + offset)
                in if \<not> open_with_amount d unique_amount then Some unique_amount
                   else gen env (Suc n) base d) = Some u"
  show "\<not> open_with_amount d u \<and> (\<exists>j\<ge>n. u = py_round4 (base + random_uniform env j))"
  proof (cases "open_with_amount d (py_round4 (base + random_uniform env n))")
    case False
    with step show ?thesis by (auto simp: Let_def)
  next
    case True
    with step have "gen env (Suc n) base d = Some u" by (simp add: Let_def)
    from IH [OF this] show ?thesis by (auto intro: Suc_leD)
  qed
qed





lemma send_message_cases:
  "send_message env uid w = (Inr (), w\<lparr>outbox := outbox w @ [uid]\<rparr>)
   \<or> (\<exists>text code. send_message env uid w
         = (Inl (TelegramError text code), w\<lparr>outbox := outbox w @ [uid]\<rparr>)
        \<and> telegram env (length (outbox w)) = Some (text, code))"
  by (auto simp: send_message_def Let_def split: option.splits)

lemma notify_expired_effect:
  "retries \<le> 3 \<Longrightarrow>
   \<exists>k. k \<le> 3 - retries \<and> (retries < 3 \<longrightarrow> 1 \<le> k)
     \<and> notify_expired env uid retries w = (Inr (), w\<lparr>outbox := outbox w @ replicate k uid\<rparr>)"
proof (induction env uid retries w rule: notify_expired.induct)
  case (1 env uid retries w)
  show ?case
  proof (cases "retries < 3")
    case False
    then show ?thesis
      by (intro exI [of _ 0]) (simp add: notify_expired.simps [of env uid retries w])
  next
    case True
    let ?w' = "w\<lparr>outbox := outbox w @ [uid]\<rparr>"
    from send_message_cases [of env uid w] show ?thesis
    proof
      assume ok: "send_message env uid w = (Inr (), ?w')"
      show ?thesis
        using True ok
        by (intro exI [of _ 1]) (simp add: notify_expired.simps [of env uid retries w])
    next
      assume "\<exists>text code. send_message env uid w = (Inl (TelegramError text code), ?w')
                \<and> telegram env (length (outbox w)) = Some (text, code)"
      then obtain msg code where
        err: "send_message env uid w = (Inl (TelegramError msg code), ?w')" by blast
      show ?thesis
      proof (cases "user_blocked msg code")
        case blocked: True
        show ?thesis
          using True err blocked
          by (intro exI [of _ 1]) (simp add: notify_expired.simps [of env uid retries w])
      next
        case retry: False
        have "retries + 1 \<le> 3" using True by simp
        from "1.IH" [OF True err [symmetric] refl refl retry this]
        obtain k where k: "k \<le> 3 - (retries + 1)"
          "notify_expired env uid (retries + 1) ?w'
             = (Inr (), ?w'\<lparr>outbox := outbox ?w' @ replicate k uid\<rparr>)"
          by blast
        have "notify_expired env uid retries w
                = (Inr (), w\<lparr>outbox := outbox w @ replicate (Suc k) uid\<rparr>)"
          using True err retry k(2)
          by (simp add: notify_expired.simps [of env uid retries w])
        with k(1) True show ?thesis
          by (intro exI [of _ "Suc k"]) simp
      qed
    qed
  qed
qed


lemma expired_rows_Cons:
  "expired_rows env i (r # rs)
     = (if expired_at env i r then r # expired_rows env (Suc i) rs
        else expired_rows env (Suc i) rs)"
  by (simp add: expired_rows_def)

lemma surviving_rows_Cons:
  "surviving_rows env i (r # rs)
     = (if expired_at env i r then surviving_rows env (Suc i) rs
        else r # surviving_rows env (Suc i) rs)"
  by (simp add: surviving_rows_def)

lemma expired_rows_subset: "set (expired_rows env i rows) \<subseteq> set rows"
  by (induction rows arbitrary: i) (auto simp: expired_rows_Cons expired_rows_def)

lemma collect_expired_effect:
  "\<exists>sent. collect_expired env i rows w
            = (Inr (map out_trade_no (expired_rows env i rows)), w\<lparr>outbox := outbox w @ sent\<rparr>)
         \<and> length (expired_rows env i rows) \<le> length sent
         \<and> length sent \<le> 3 * length (expired_rows env i rows)"
proof (induction rows arbitrary: i w)
  case Nil
  show ?case by (intro exI [of _ "[]"]) (simp add: ret_def expired_rows_def)
next
  case (Cons r rs)
  show ?case
  proof (cases "expired_at env i r")
    case False
    then have "collect_expired env i (r # rs) w = collect_expired env (Suc i) rs w"
      by (auto simp: expired_at_def split: option.splits)
    with Cons.IH [of "Suc i" w] False show ?thesis
      by (simp add: expired_rows_Cons)
  next
    case True
    then obtain t where t: "dep_status r = 0" "expires_at r = Some t" "t < now_at env i"
      by (auto simp: expired_at_def split: option.splits)
    from notify_expired_effect [of 0 env "dep_telegram_id r" w]
    obtain k where k: "k \<le> 3" "1 \<le> k"
      "notify_expired env (dep_telegram_id r) 0 w
         = (Inr (), w\<lparr>outbox := outbox w @ replicate k (dep_telegram_id r)\<rparr>)"
      by auto
    let ?w1 = "w\<lparr>outbox := outbox w @ replicate k (dep_telegram_id r)\<rparr>"
    from Cons.IH [of "Suc i" ?w1]
    obtain sent where sent:
      "collect_expired env (Suc i) rs ?w1
         = (Inr (map out_trade_no (expired_rows env (Suc i) rs)),
            ?w1\<lparr>outbox := outbox ?w1 @ sent\<rparr>)"
      "length (expired_rows env (Suc i) rs) \<le> length sent"
      "length sent \<le> 3 * length (expired_rows env (Suc i) rs)"
      by blast
    have "collect_expired env i (r # rs) w
            = (Inr (map out_trade_no (expired_rows env i (r # rs))),
               w\<lparr>outbox := outbox w @ (replicate k (dep_telegram_id r) @ sent)\<rparr>)"
      using t k(3) sent(1) True
      by (simp add: and_then_def ret_def expired_rows_Cons)
    moreover have "length (expired_rows env i (r # rs))
                     \<le> length (replicate k (dep_telegram_id r) @ sent)"
      using True k(2) sent(2) by (simp add: expired_rows_Cons)
    moreover have "length (replicate k (dep_telegram_id r) @ sent)
                     \<le> 3 * length (expired_rows env i (r # rs))"
      using True k(1) sent(3) by (simp add: expired_rows_Cons)
    ultimately show ?thesis by blast
  qed
qed

lemma executemany_delete_effect:
  "executemany_delete ks w = (Inr (), w\<lparr>conn := conn w @ map Delete_deposit ks\<rparr>)"
  by (induction ks arbitrary: w) (simp_all add: ret_def and_then_def execute_def)

lemma fold_delete_deposits:
  "fold apply_write (map Delete_deposit ks) d
     = d\<lparr>usdtpay := filter (\<lambda>r. out_trade_no r \<notin> set ks) (usdtpay d)\<rparr>"
proof (induction ks arbitrary: d)
  case Nil
  show ?case by simp
next
  case (Cons k ks)
  show ?case by (simp add: Cons.IH)
qed

lemma delete_expired_keeps_survivors:
  assumes "distinct (map out_trade_no rows)"
  shows "filter (\<lambda>r. out_trade_no r \<notin> set (map out_trade_no (expired_rows env i rows))) rows
           = surviving_rows env i rows"
  using assms
proof (induction rows arbitrary: i)
  case Nil
  show ?case by (simp add: surviving_rows_def expired_rows_def)
next
  case (Cons r rs)
  have fresh: "out_trade_no r \<notin> out_trade_no ` set (expired_rows env (Suc i) rs)"
    using Cons.prems expired_rows_subset [of env "Suc i" rs] by auto
  have tail: "filter (\<lambda>x. out_trade_no x \<notin> set (map out_trade_no (expired_rows env i (r # rs)))) rs
                = filter (\<lambda>x. out_trade_no x \<notin> set (map out_trade_no (expired_rows env (Suc i) rs))) rs"
  proof (intro filter_cong refl)
    fix x assume x: "x \<in> set rs"
    have "out_trade_no r \<notin> set (map out_trade_no rs)" using Cons.prems by simp
    moreover have "out_trade_no x \<in> set (map out_trade_no rs)" using x by simp
    ultimately have "out_trade_no x \<noteq> out_trade_no r" by metis
    then show "(out_trade_no x \<notin> set (map out_trade_no (expired_rows env i (r # rs))))
             = (out_trade_no x \<notin> set (map out_trade_no (expired_rows env (Suc i) rs)))"
      by (simp add: expired_rows_Cons)
  qed
  have IH: "filter (\<lambda>x. out_trade_no x \<notin> set (map out_trade_no (expired_rows env (Suc i) rs))) rs
              = surviving_rows env (Suc i) rs"
    using Cons.prems by (intro Cons.IH) simp
  show ?case
    using fresh tail IH by (auto simp: expired_rows_Cons surviving_rows_Cons)
qed

lemma notify_expired_blocked:
  assumes "retries < 3" and "telegram env (length (outbox v)) = Some (msg, code)"
    and "user_blocked msg code"
  shows "notify_expired env uid retries v = (Inr (), v\<lparr>outbox := outbox v @ [uid]\<rparr>)"
  using assms
  by (simp add: notify_expired.simps [of env uid retries v] send_message_def Let_def)

text \<open>
  C9. On a table whose order numbers are pairwise different, one run of
  \<open>cleanup_expired_orders\<close> returns normally and leaves exactly the rows that are not open
  orders past their expiry, unchanged and in their order; every other table and the
  caller's connection are untouched. Each deleted order costs between one and three
  \<^verbatim>\<open>send_message\<close> attempts, and an attempt answered with a blocked or forbidden error
  is the last one for that order.
\<close>

theorem sweep_deletes_exactly_expired:
  assumes "distinct (map out_trade_no (usdtpay (db w)))"
  shows "(let w' = snd (cleanup_expired_orders env w);
              rows = usdtpay (db w)
          in fst (cleanup_expired_orders env w) = Inr ()
           \<and> db w' = (db w)\<lparr>usdtpay := surviving_rows env 0 rows\<rparr>
           \<and> conn w' = conn w
           \<and> length (expired_rows env 0 rows) \<le> length (outbox w') - length (outbox w)
           \<and> length (outbox w') - length (outbox w) \<le> 3 * length (expired_rows env 0 rows))
         \<and> (\<forall>uid v msg code retries.
               (retries::nat) < 3 \<and> telegram env (length (outbox v)) = Some (msg, code)
                 \<and> user_blocked msg code
               \<longrightarrow> notify_expired env uid retries v
                     = (Inr (), v\<lparr>outbox := outbox v @ [uid]\<rparr>))"
proof -
  let ?rows = "usdtpay (db w)"
  let ?w0 = "w\<lparr>conn := []\<rparr>"
  from collect_expired_effect [of env 0 ?rows ?w0]
  obtain sent where sent:
    "collect_expired env 0 ?rows ?w0
       = (Inr (map out_trade_no (expired_rows env 0 ?rows)), ?w0\<lparr>outbox := outbox ?w0 @ sent\<rparr>)"
    "length (expired_rows env 0 ?rows) \<le> length sent"
    "length sent \<le> 3 * length (expired_rows env 0 ?rows)"
    by blast
  have keep: "filter (\<lambda>r. out_trade_no r \<notin> set (map out_trade_no (expired_rows env 0 ?rows))) ?rows
                = surviving_rows env 0 ?rows"
    using assms by (rule delete_expired_keeps_survivors)
  have none: "expired_rows env 0 ?rows = [] \<Longrightarrow> surviving_rows env 0 ?rows = ?rows"
    using keep by simp
  have run: "cleanup_expired_orders env w
               = (Inr (), w\<lparr>db := (db w)\<lparr>usdtpay := surviving_rows env 0 ?rows\<rparr>,
                          outbox := outbox w @ sent\<rparr>)"
    using sent(1) keep none
    by (auto simp add: cleanup_expired_orders_def action_defs executemany_delete_effect
        fold_delete_deposits simp del: map_map)
  have blocked: "\<forall>uid v msg code retries.
      (retries::nat) < 3 \<and> telegram env (length (outbox v)) = Some (msg, code)
        \<and> user_blocked msg code
      \<longrightarrow> notify_expired env uid retries v = (Inr (), v\<lparr>outbox := outbox v @ [uid]\<rparr>)"
    using notify_expired_blocked by blast
  show ?thesis
    using sent(2,3) blocked by (simp add: run Let_def)
qed

theorem sweep_deletes_exactly_expired_witness:
  "distinct (map out_trade_no (usdtpay (db deposit_world)))
   \<and> usdtpay (db (snd (cleanup_expired_orders sweep_env deposit_world)))
       = [order_open, order_matched, order_canceled]
   \<and> outbox (snd (cleanup_expired_orders sweep_env deposit_world)) = [1, 1]"
proof -
  have h: "distinct (map out_trade_no (usdtpay (db deposit_world)))"
    by (simp add: deposit_world_defs)
  have rows: "surviving_rows sweep_env 0 (usdtpay (db deposit_world))
                = [order_open, order_matched, order_canceled]"
    by (simp add: surviving_rows_def expired_at_def deposit_world_defs sweep_env_def
        shop_env_def enumerate_eq_zip upt_rec)
  have sent: "outbox (snd (cleanup_expired_orders sweep_env deposit_world)) = [1, 1]"
    by (simp add: cleanup_expired_orders_def action_defs send_message_def
        user_blocked_def py_lower_def Let_def deposit_world_defs sweep_env_def shop_env_def
        notify_expired.simps)
  show ?thesis
    using h sent sweep_deletes_exactly_expired [OF h, of sweep_env]
    by (simp add: Let_def rows)
qed

section \<open>What a drain step can do\<close>

lemma py_split_acc_no_occurrence:
  "x \<in> set sep \<Longrightarrow> x \<notin> set s \<Longrightarrow> py_split_acc sep acc s = [rev acc @ s]"
proof (induction s arbitrary: acc)
  case Nil
  show ?case by simp
next
  case (Cons y ys)
  have "\<not> prefix sep (y # ys)"
  proof
    assume "prefix sep (y # ys)"
    then have "set sep \<subseteq> set (y # ys)" by (rule set_mono_prefix)
    with Cons.prems show False by auto
  qed
  with Cons show ?case by simp
qed

lemma py_split_no_occurrence:
  "x \<in> set sep \<Longrightarrow> x \<notin> set s \<Longrightarrow> py_split s sep = [s]"
  by (simp add: py_split_def py_split_acc_no_occurrence)

lemma order_number_of_already_active:
  assumes "0x3a \<notin> set username" and "duration \<in> {3, 6, 12}"
  shows "order_number_of (msg_already_active username (duration_text duration)) w
           = (Inl IndexError, w)"
proof -
  have "(0x3a::nat) \<in> set order_number_marker" by (simp add: order_number_marker_def)
  moreover have "(0x3a::nat) \<notin> set (msg_already_active username (duration_text duration))"
    using assms
    by (auto simp: msg_already_active_def duration_text_def py_str.simps [of 3]
        py_str.simps [of 6])
  ultimately have "py_split (msg_already_active username (duration_text duration))
                     order_number_marker
                   = [msg_already_active username (duration_text duration)]"
    by (rule py_split_no_occurrence)
  then show ?thesis by (simp add: order_number_of_def raise_exn_def)
qed

lemma activate_premium_world:
  "snd (activate_premium env username duration uid w) = w\<lparr>activations := Suc (activations w)\<rparr>"
  by (auto simp add: activate_premium_def activate_premium_steps_def action_defs store_defs
      Let_def split_beta split: sum.splits)

lemma activate_premium_result:
  "\<exists>message amount. fst (activate_premium env username duration uid w)
        = Inr (False, message, None)
     \<or> fst (activate_premium env username duration uid w)
        = Inr (True, msg_already_active username (duration_text duration), Some amount)
       \<and> duration \<in> {3, 6, 12}"
  by (auto simp add: activate_premium_def activate_premium_steps_def action_defs store_defs
      Let_def split_beta split: sum.splits)

lemma update_queue_task_status_effect:
  "update_queue_task_status tid Failed msg v
     = (Inr (), v\<lparr>db := apply_write (Set_task_failed tid Failed msg) (db v)\<rparr>)"
  by (simp add: update_queue_task_status_def action_defs)

lemma set_failed_ids:
  "map task_id (map (\<lambda>t. if task_id t = i
       then t\<lparr>qt_status := s, error_message := msg, retry_count := retry_count t + 1\<rparr>
       else t) q) = map task_id q"
  by (induction q) simp_all

lemma set_failed_status:
  "t \<in> set (map (\<lambda>t. if task_id t = i
       then t\<lparr>qt_status := s, error_message := msg, retry_count := retry_count t + 1\<rparr>
       else t) q) \<Longrightarrow> task_id t = i \<Longrightarrow> qt_status t = s"
proof (induction q)
  case Nil
  then show ?case by simp
next
  case (Cons a q)
  from Cons.prems(1) have "t = (if task_id a = i
       then a\<lparr>qt_status := s, error_message := msg, retry_count := retry_count a + 1\<rparr>
       else a)
    \<or> t \<in> set (map (\<lambda>t. if task_id t = i
       then t\<lparr>qt_status := s, error_message := msg, retry_count := retry_count t + 1\<rparr>
       else t) q)"
    by (simp del: set_map)
  then show ?case
  proof
    assume "t = (if task_id a = i
       then a\<lparr>qt_status := s, error_message := msg, retry_count := retry_count a + 1\<rparr>
       else a)"
    with Cons.prems(2) show ?thesis by (cases "task_id a = i") simp_all
  next
    assume "t \<in> set (map (\<lambda>t. if task_id t = i
       then t\<lparr>qt_status := s, error_message := msg, retry_count := retry_count t + 1\<rparr>
       else t) q)"
    then show ?thesis using Cons.prems(2) by (rule Cons.IH)
  qed
qed

lemma set_failed_effect:
  "untouched d (apply_write (Set_task_failed tid Failed msg) d)"
  "failed_in tid (apply_write (Set_task_failed tid Failed msg) d)"
  using set_failed_status [where i = tid and s = Failed and msg = msg and q = "premium_queue d"]
  by (simp_all add: untouched_def failed_in_def set_failed_ids del: set_map map_map)

lemma untouched_steps:
  "untouched d d"
  "untouched d (apply_write (Set_task_failed tid Failed msg) d1) = untouched d d1"
  "untouched d (apply_write (Insert_purchase_order r) d1) = untouched d d1"
  by (simp_all add: untouched_def set_failed_ids del: map_map)

lemma failed_in_steps:
  "failed_in tid (apply_write (Set_task_failed tid Failed msg) d1)"
  "failed_in tid (apply_write (Insert_purchase_order r) d1) = failed_in tid d1"
  by (rule set_failed_effect(2)) (simp add: failed_in_def)

lemma over_cap:
  assumes "max_retries \<le> retries"
  shows "untouched (db w) (db (snd (process_task env (tid, uid, username, duration, retries) w)))
       \<and> failed_in tid (db (snd (process_task env (tid, uid, username, duration, retries) w)))"
  using assms
  by (simp add: process_task_def process_task_with_def action_defs send_message_def
      update_queue_task_status_effect untouched_steps failed_in_steps Let_def split_beta
      split: option.splits del: apply_write.simps)

lemmas step_simps = process_task_def process_task_with_def settle_task_def lookup_price_def
  max_retries_def action_defs get_balance_def select_balance_def stored_balance_def
  generate_order_id_def insert_purchase_order_def record_purchase_order_def send_message_def
  update_queue_task_status_effect untouched_steps failed_in_steps Let_def split_beta

lemma under_cap:
  assumes "retries < max_retries" and "0x3a \<notin> set username"
  shows "untouched (db w) (db (snd (process_task env (tid, uid, username, duration, retries) w)))
       \<and> failed_in tid (db (snd (process_task env (tid, uid, username, duration, retries) w)))"
proof -
  let ?W = "w\<lparr>conn := []\<rparr>"
  let ?act = "activate_premium env username duration uid ?W"
  have world: "snd ?act = ?W\<lparr>activations := Suc (activations ?W)\<rparr>"
    by (rule activate_premium_world)
  from activate_premium_result [of env username duration uid ?W]
  obtain message amount where
    "fst ?act = Inr (False, message, None)
     \<or> fst ?act = Inr (True, msg_already_active username (duration_text duration), Some amount)
       \<and> duration \<in> {3, 6, 12}"
    by blast
  then show ?thesis
  proof
    assume "fst ?act = Inr (False, message, None)"
    with world have act: "?act = (Inr (False, message, None),
        w\<lparr>conn := [], activations := Suc (activations w)\<rparr>)"
      by (simp add: prod_eq_iff)
    show ?thesis
      using assms(1) act
      by (simp add: step_simps split: option.splits del: apply_write.simps)
  next
    assume yes: "fst ?act
        = Inr (True, msg_already_active username (duration_text duration), Some amount)
      \<and> duration \<in> {3, 6, 12}"
    with world have act: "?act
        = (Inr (True, msg_already_active username (duration_text duration), Some amount),
           w\<lparr>conn := [], activations := Suc (activations w)\<rparr>)"
      by (simp add: prod_eq_iff)
    have parse: "\<And>v. order_number_of (msg_already_active username (duration_text duration)) v
                   = (Inl IndexError, v)"
      using assms(2) yes by (intro order_number_of_already_active) simp_all
    show ?thesis
      using assms(1) act parse
      by (simp add: step_simps split: option.splits del: apply_write.simps)
  qed
qed

text \<open>
  Whatever the provider, the notifier and the stored data are, a drain step on a task
  whose user name has no colon (the purchase dialogue accepts word characters only)
  changes no balance and no settlement record, and leaves the task failed: the success
  branch of the queue is never taken.
\<close>

theorem drained_task_ends_failed:
  assumes "0x3a \<notin> set username"
  shows "(let w' = snd (process_task env (tid, uid, username, duration, retries) w)
          in user_balances (db w') = user_balances (db w)
           \<and> completed_orders (db w') = completed_orders (db w)
           \<and> map task_id (premium_queue (db w')) = map task_id (premium_queue (db w))
           \<and> (\<forall>t \<in> set (premium_queue (db w')). task_id t = tid \<longrightarrow> qt_status t = Failed))"
proof (cases "max_retries \<le> retries")
  case True
  from over_cap [OF True, of w env tid uid username duration] show ?thesis
    by (simp add: untouched_def failed_in_def Let_def)
next
  case False
  then have "retries < max_retries" by simp
  from under_cap [OF this assms, of w env tid uid duration] show ?thesis
    by (simp add: untouched_def failed_in_def Let_def)
qed

end
